theory Spec2Isabelle
  imports Main "HOL-Library.Sublist" "HOL-Library.AList"
begin

section \<open>The TypeScript plugin of the Svelte language server\<close>

text \<open>
  A shallow embedding of \<^verbatim>\<open>src/plugins/TypeScriptPlugin.ts\<close>. The plugin keeps a table of
  in-memory document snapshots, hands it to a TypeScript language service through a host
  object, and converts the answers of the service into the data of the language server
  protocol.

  What the file imports and does not define is a parameter of the model: the \<^verbatim>\<open>Document\<close>
  interface (a record of what its methods return), the TypeScript library (\<^verbatim>\<open>ts_sys\<close> for
  configuration discovery, module resolution and Node's path functions, \<^verbatim>\<open>ts_service\<close> for
  the queries of a language service), and the formatter libraries (\<^verbatim>\<open>formatter\<close>).
  A JavaScript string is a \<^typ>\<open>string\<close>, \<^verbatim>\<open>undefined\<close> and \<^verbatim>\<open>null\<close> are \<^term>\<open>None\<close>.
\<close>

subsection \<open>Protocol data (\<^verbatim>\<open>../api\<close>)\<close>

record Position =
  line :: nat
  character :: nat

record Range =
  range_start :: Position
  range_end :: Position

definition Range_create :: "Position \<Rightarrow> Position \<Rightarrow> Range" where
  "Range_create s e = \<lparr>range_start = s, range_end = e\<rparr>"

datatype DiagnosticSeverity = Error | Warning | Information | Hint

record Diagnostic =
  range :: Range
  severity :: DiagnosticSeverity
  source :: string
  message :: string

record MarkedString =
  language :: string
  val :: string

record Hover =
  hover_range :: Range
  contents :: MarkedString

record TextEdit =
  edit_range :: Range
  newText :: string

definition TextEdit_replace :: "Range \<Rightarrow> string \<Rightarrow> TextEdit" where
  "TextEdit_replace r t = \<lparr>edit_range = r, newText = t\<rparr>"

text \<open>
  The \<^verbatim>\<open>Document\<close> interface: one field for each method or property the plugin reads.
  \<^verbatim>\<open>getFilePath()\<close> is used under the non-null assertion \<^verbatim>\<open>!\<close>, so it is a string here;
  \<^verbatim>\<open>getAttributes().type\<close> may be absent.
\<close>

record Document =
  getFilePath :: string
  getText :: string
  getTextLength :: nat
  version :: int
  getAttributes_type :: "string option"
  positionAt :: "nat \<Rightarrow> Position"
  offsetAt :: "Position \<Rightarrow> nat"

subsection \<open>Data of the TypeScript library\<close>

datatype ScriptKind = Unknown | JS | JSX | TS | TSX | External | JSON | Deferred

datatype DiagnosticCategory = CategoryWarning | CategoryError | CategorySuggestion | CategoryMessage

text \<open>\<^verbatim>\<open>{ start?: number; length?: number }\<close>, the argument type of \<^verbatim>\<open>convertRange\<close>.\<close>

record TextSpan =
  span_start :: "nat option"
  span_length :: "nat option"

record 'm ts_Diagnostic = TextSpan +
  messageText :: 'm
  category :: DiagnosticCategory

record 'p QuickInfo =
  textSpan :: TextSpan
  displayParts :: 'p

datatype CompilerOptionValue =
  Flag bool | ScriptTarget_Latest | ModuleKind_ESNext | ModuleResolutionKind_NodeJs
  | OtherValue string

type_synonym CompilerOptions = "string \<rightharpoonup> CompilerOptionValue"

record ParsedCommandLine =
  fileNames :: "string list"
  options :: CompilerOptions

record ResolvedModule =
  resolvedFileName :: string
  extension :: string

text \<open>
  The calls into \<^verbatim>\<open>ts\<close>, \<^verbatim>\<open>ts.sys\<close> and Node's \<^verbatim>\<open>path\<close> that \<^verbatim>\<open>getLanguageService\<close> makes.
  \<^verbatim>\<open>'j\<close> is the parsed JSON of a configuration file.
\<close>

record 'j ts_sys =
  findConfigFile :: "string \<Rightarrow> string \<Rightarrow> string option"
  readConfigFile_config :: "string \<Rightarrow> 'j option"
  parseJsonConfigFileContent :: "'j \<Rightarrow> string \<Rightarrow> CompilerOptions \<Rightarrow> string \<Rightarrow> ParsedCommandLine"
  resolveModuleName :: "string \<Rightarrow> string \<Rightarrow> CompilerOptions \<Rightarrow> ResolvedModule option"
  path_resolve :: "string \<Rightarrow> string \<Rightarrow> string"
  path_dirname :: "string \<Rightarrow> string"
  path_extname :: "string \<Rightarrow> string"

subsection \<open>JavaScript built-ins\<close>

text \<open>
  \<^verbatim>\<open>String.prototype.substring\<close> on integer arguments: each index is clamped to
  \<^verbatim>\<open>[0, length]\<close>, and the smaller of the two is where the result starts.
\<close>

definition clamp_index :: "nat \<Rightarrow> int \<Rightarrow> nat" where
  "clamp_index len i = nat (min (max i 0) (int len))"

definition substring :: "string \<Rightarrow> int \<Rightarrow> int \<Rightarrow> string" where
  "substring s intStart intEnd =
     (let len = length s;
          finalStart = clamp_index len intStart;
          finalEnd = clamp_index len intEnd;
          from_ix = min finalStart finalEnd;
          to_ix = max finalStart finalEnd
      in take (to_ix - from_ix) (drop from_ix s))"

text \<open>\<^verbatim>\<open>String(n)\<close> for an integer \<^verbatim>\<open>n\<close>: its decimal digits, with a minus sign below zero.\<close>

definition digit_char :: "nat \<Rightarrow> char" where
  "digit_char d = char_of (48 + d)"

fun String_nat :: "nat \<Rightarrow> string" where
  "String_nat n = (if n < 10 then [digit_char n] else String_nat (n div 10) @ [digit_char (n mod 10)])"

declare String_nat.simps [simp del]

definition String_number :: "int \<Rightarrow> string" where
  "String_number i = (if i < 0 then CHR ''-'' # String_nat (nat (- i)) else String_nat (nat i))"

text \<open>\<^verbatim>\<open>a || b\<close> on \<^verbatim>\<open>string | undefined\<close>: the empty string is falsy too.\<close>

definition truthy :: "string option \<Rightarrow> bool" where
  "truthy a = (case a of None \<Rightarrow> False | Some s \<Rightarrow> s \<noteq> [])"

definition js_or :: "string option \<Rightarrow> string option \<Rightarrow> string option" where
  "js_or a b = (if truthy a then a else b)"

text \<open>\<^verbatim>\<open>x || 0\<close> on \<^verbatim>\<open>number | undefined\<close>.\<close>

definition or_zero :: "nat option \<Rightarrow> nat" where
  "or_zero x = (case x of None \<Rightarrow> 0 | Some n \<Rightarrow> n)"

text \<open>
  \<^verbatim>\<open>Array.from(new Set(xs))\<close>: a \<^verbatim>\<open>Set\<close> iterates in insertion order, so the first
  occurrence of each element stays.
\<close>

fun Array_from_Set :: "'a list \<Rightarrow> 'a list" where
  "Array_from_Set [] = []"
| "Array_from_Set (x # xs) = x # Array_from_Set (filter (\<lambda>y. y \<noteq> x) xs)"

text \<open>
  A \<^verbatim>\<open>Map\<close> iterates in insertion order and \<^verbatim>\<open>set\<close> on a key it has keeps the key's place:
  an association list under \<^const>\<open>AList.update\<close>.
\<close>

definition Map_get :: "('k \<times> 'v) list \<Rightarrow> 'k \<Rightarrow> 'v option" where
  "Map_get m k = map_of m k"

definition Map_set :: "'k \<Rightarrow> 'v \<Rightarrow> ('k \<times> 'v) list \<Rightarrow> ('k \<times> 'v) list" where
  "Map_set k v m = AList.update k v m"

definition Map_keys :: "('k \<times> 'v) list \<Rightarrow> 'k list" where
  "Map_keys m = map fst m"

datatype error = TypeError | SyntaxError

subsection \<open>Script kinds and parsers\<close>

definition getScriptKindFromTypeAttribute :: "string option \<Rightarrow> ScriptKind" where
  "getScriptKindFromTypeAttribute type =
     (if type = Some ''text/typescript'' then TS
      else if type = Some ''text/javascript'' then JS
      else JS)"

definition getParserFromTypeAttribute :: "string option \<Rightarrow> string" where
  "getParserFromTypeAttribute type =
     (if type = Some ''text/typescript'' then ''typescript''
      else if type = Some ''text/javascript'' then ''babylon''
      else ''babylon'')"

definition isSvelte :: "string \<Rightarrow> bool" where
  "isSvelte filePath = (suffix ''.html'' filePath \<or> suffix ''.svelte'' filePath)"

definition convertRange :: "Document \<Rightarrow> 'a TextSpan_scheme \<Rightarrow> Range" where
  "convertRange document r =
     Range_create (positionAt document (or_zero (span_start r)))
       (positionAt document (or_zero (span_start r) + or_zero (span_length r)))"

subsection \<open>Document snapshots\<close>

text \<open>
  A snapshot is an object of three closures and two values. The closures capture
  the local constants \<^verbatim>\<open>text\<close> and \<^verbatim>\<open>length\<close> of \<^verbatim>\<open>fromDocument\<close>, not the document.
\<close>

record DocumentSnapshot =
  snap_version :: int
  scriptKind :: ScriptKind
  snap_getText :: "int \<Rightarrow> int \<Rightarrow> string"
  getLength :: "unit \<Rightarrow> nat"
  getChangeRange :: "unit \<Rightarrow> unit option"

definition fromDocument :: "Document \<Rightarrow> DocumentSnapshot" where
  "fromDocument document =
     (let text = getText document;
          len = getTextLength document
      in \<lparr>snap_version = version document,
          scriptKind = getScriptKindFromTypeAttribute (getAttributes_type document),
          snap_getText = (\<lambda>start fin. substring text start fin),
          getLength = (\<lambda>_. len),
          getChangeRange = (\<lambda>_. None)\<rparr>)"

subsection \<open>Language service instances\<close>

text \<open>
  \<^verbatim>\<open>ts.createLanguageService(host)\<close> returns a new object on every call, and
  \<^verbatim>\<open>dispose()\<close> ends the life of one. An instance is the number of the call that made it;
  the calls made for one host are kept in a trace, and the instances alive after a trace
  are those created and not yet disposed.
\<close>

type_synonym LanguageService = nat

datatype service_event = Created LanguageService | Disposed LanguageService

fun apply_event :: "service_event \<Rightarrow> LanguageService set \<Rightarrow> LanguageService set" where
  "apply_event (Created h) L = insert h L"
| "apply_event (Disposed h) L = L - {h}"

definition live_after :: "service_event list \<Rightarrow> LanguageService set" where
  "live_after t = fold apply_event t {}"

text \<open>At no point of the trace are two instances alive.\<close>

fun never_two_live :: "LanguageService set \<Rightarrow> service_event list \<Rightarrow> bool" where
  "never_two_live L [] = (card L \<le> 1)"
| "never_two_live L (e # es) = (card L \<le> 1 \<and> never_two_live (apply_event e L) es)"

subsection \<open>The state of \<^verbatim>\<open>getLanguageService\<close>\<close>

text \<open>
  The variables the closures of \<^verbatim>\<open>getLanguageService\<close> share: the table \<^verbatim>\<open>documents\<close>,
  \<^verbatim>\<open>compilerOptions\<close>, \<^verbatim>\<open>files\<close> (declared without a value: \<^term>\<open>None\<close> until assigned)
  and \<^verbatim>\<open>languageService\<close>; with them, the number of instances created so far and the
  trace of creations and disposals.
\<close>

record ls_state =
  documents :: "(string \<times> DocumentSnapshot) list"
  compilerOptions :: CompilerOptions
  files :: "string list option"
  languageService :: LanguageService
  created :: nat
  trace :: "service_event list"

definition createLanguageService :: "ls_state \<Rightarrow> ls_state" where
  "createLanguageService st =
     st\<lparr>languageService := created st,
        created := Suc (created st),
        trace := trace st @ [Created (created st)]\<rparr>"

definition dispose :: "ls_state \<Rightarrow> ls_state" where
  "dispose st = st\<lparr>trace := trace st @ [Disposed (languageService st)]\<rparr>"

definition workspacePath :: string where
  "workspacePath = ''/Users/jamesb/projects/Aircast/frontend''"

definition defaultCompilerOptions :: CompilerOptions where
  "defaultCompilerOptions =
     [''allowNonTsExtensions'' \<mapsto> Flag True,
      ''target'' \<mapsto> ScriptTarget_Latest,
      ''module'' \<mapsto> ModuleKind_ESNext,
      ''moduleResolution'' \<mapsto> ModuleResolutionKind_NodeJs,
      ''allowJs'' \<mapsto> Flag True]"

definition getLanguageService :: "'j ts_sys \<Rightarrow> ls_state" where
  "getLanguageService sys =
     (let configFilename =
            js_or (findConfigFile sys workspacePath ''tsconfig.json'')
                  (findConfigFile sys workspacePath ''jsconfig.json'');
          configJson =
            (case configFilename of
               None \<Rightarrow> None
             | Some f \<Rightarrow> if f = [] then None else readConfigFile_config sys f);
          st0 = \<lparr>documents = [], compilerOptions = defaultCompilerOptions, files = None,
                 languageService = 0, created = 0, trace = []\<rparr>;
          st1 =
            (case configJson of
               None \<Rightarrow> st0
             | Some json \<Rightarrow>
                 (let parsedConfig =
                        parseJsonConfigFileContent sys json workspacePath
                          (compilerOptions st0)
                          (case configFilename of None \<Rightarrow> [] | Some f \<Rightarrow> f)
                  in st0\<lparr>files := Some (fileNames parsedConfig),
                         compilerOptions := compilerOptions st0 ++ options parsedConfig\<rparr>))
      in createLanguageService st1)"

subsection \<open>The host\<close>

definition getCompilationSettings :: "ls_state \<Rightarrow> CompilerOptions" where
  "getCompilationSettings st = compilerOptions st"

text \<open>
  Spreading \<^verbatim>\<open>files\<close> while it is \<^verbatim>\<open>undefined\<close> throws a \<^verbatim>\<open>TypeError\<close>: \<^verbatim>\<open>undefined\<close> is
  not iterable.
\<close>

definition getScriptFileNames :: "ls_state \<Rightarrow> error + string list" where
  "getScriptFileNames st =
     (case files st of
        None \<Rightarrow> Inl TypeError
      | Some fs \<Rightarrow> Inr (Array_from_Set (fs @ Map_keys (documents st))))"

definition getScriptVersion :: "ls_state \<Rightarrow> string \<Rightarrow> string" where
  "getScriptVersion st fileName =
     (case Map_get (documents st) fileName of
        Some doc \<Rightarrow> String_number (snap_version doc)
      | None \<Rightarrow> ''0'')"

definition getCurrentDirectory :: string where
  "getCurrentDirectory = ''/Users/jamesb/projects/Aircast/frontend''"

definition resolveModuleNames ::
  "'j ts_sys \<Rightarrow> ls_state \<Rightarrow> string list \<Rightarrow> string \<Rightarrow> ResolvedModule option list" where
  "resolveModuleNames sys st moduleNames containingFile =
     map (\<lambda>name.
            (let resolved = resolveModuleName sys name containingFile (compilerOptions st)
             in if resolved = None \<and> isSvelte name
                then Some \<lparr>resolvedFileName = path_resolve sys (path_dirname sys containingFile) name,
                           extension = path_extname sys name\<rparr>
                else resolved))
         moduleNames"

subsection \<open>\<^verbatim>\<open>updateDocument\<close>\<close>

definition updateDocument :: "Document \<Rightarrow> ls_state \<Rightarrow> LanguageService \<times> ls_state" where
  "updateDocument document st =
     (let preSnapshot = Map_get (documents st) (getFilePath document);
          newSnapshot = fromDocument document;
          st1 =
            (case preSnapshot of
               None \<Rightarrow> st
             | Some pre \<Rightarrow>
                 if scriptKind pre \<noteq> scriptKind newSnapshot
                 then createLanguageService (dispose st)
                 else st);
          st2 = st1\<lparr>documents := Map_set (getFilePath document) newSnapshot (documents st1)\<rparr>
      in (languageService st2, st2))"

subsection \<open>The plugin\<close>

text \<open>
  The queries of a language service and the two printers of \<^verbatim>\<open>ts\<close> the plugin calls. A
  query is made of an instance, in the state its host shows, for a file name.
\<close>

record ('m, 'p) ts_service =
  getSyntacticDiagnostics :: "LanguageService \<Rightarrow> ls_state \<Rightarrow> string \<Rightarrow> 'm ts_Diagnostic list"
  getSemanticDiagnostics :: "LanguageService \<Rightarrow> ls_state \<Rightarrow> string \<Rightarrow> 'm ts_Diagnostic list"
  getQuickInfoAtPosition :: "LanguageService \<Rightarrow> ls_state \<Rightarrow> string \<Rightarrow> nat \<Rightarrow> 'p QuickInfo option"
  flattenDiagnosticMessageText :: "'m \<Rightarrow> string \<Rightarrow> string"
  displayPartsToString :: "'p \<Rightarrow> string"

text \<open>
  \<^verbatim>\<open>prettier\<close>, \<^verbatim>\<open>detect-indent\<close> and \<^verbatim>\<open>indent-string\<close>; \<^verbatim>\<open>'c\<close> is a prettier configuration.
  \<^verbatim>\<open>prettier.resolveConfig\<close> returns a promise that may be rejected, and \<^verbatim>\<open>prettier.format\<close>
  throws on text it cannot parse: both return the error \<^verbatim>\<open>'e\<close> or the value.
\<close>

record Indent =
  amount :: nat
  indent_type :: "string option"

record ('c, 'e) formatter =
  prettier_resolveConfig :: "string \<Rightarrow> 'e + 'c"
  prettier_format :: "string \<Rightarrow> 'c \<Rightarrow> string \<Rightarrow> 'e + string"
  detectIndent :: "string \<Rightarrow> Indent"
  indentString :: "string \<Rightarrow> nat \<Rightarrow> string \<Rightarrow> string"

definition toDiagnostic :: "('m, 'p) ts_service \<Rightarrow> Document \<Rightarrow> 'm ts_Diagnostic \<Rightarrow> Diagnostic" where
  "toDiagnostic ts document diagnostic =
     \<lparr>range = convertRange document diagnostic,
      severity = Error,
      source =
        (if getScriptKindFromTypeAttribute (getAttributes_type document) = TS
         then ''ts'' else ''js''),
      message = flattenDiagnosticMessageText ts (messageText diagnostic) [CHR 0x0A]\<rparr>"

definition getDiagnostics ::
  "('m, 'p) ts_service \<Rightarrow> Document \<Rightarrow> ls_state \<Rightarrow> Diagnostic list \<times> ls_state" where
  "getDiagnostics ts document st =
     (let (lang, st') = updateDocument document st;
          syntaxDiagnostics = getSyntacticDiagnostics ts lang st' (getFilePath document);
          semanticDiagnostics = getSemanticDiagnostics ts lang st' (getFilePath document)
      in (map (toDiagnostic ts document) (syntaxDiagnostics @ semanticDiagnostics), st'))"

definition doHover ::
  "('m, 'p) ts_service \<Rightarrow> Document \<Rightarrow> Position \<Rightarrow> ls_state \<Rightarrow> Hover option \<times> ls_state" where
  "doHover ts document position st =
     (let (lang, st') = updateDocument document st;
          info = getQuickInfoAtPosition ts lang st' (getFilePath document)
                   (offsetAt document position)
      in case info of
           None \<Rightarrow> (None, st')
         | Some i \<Rightarrow>
             (let contents = displayPartsToString ts (displayParts i)
              in (Some \<lparr>hover_range = convertRange document (textSpan i),
                        contents = \<lparr>language = ''ts'', val = contents\<rparr>\<rparr>, st')))"

text \<open>
  \<^verbatim>\<open>formatDocument\<close> is \<^verbatim>\<open>async\<close> and has no \<^verbatim>\<open>try\<close>: an error of \<^verbatim>\<open>prettier.resolveConfig\<close> or
  of \<^verbatim>\<open>prettier.format\<close> rejects the promise it returns (\<^term>\<open>Inl\<close>).
\<close>

definition formatDocument :: "('c, 'e) formatter \<Rightarrow> Document \<Rightarrow> 'e + TextEdit list" where
  "formatDocument fmt document =
     (if getTextLength document = 0 then Inr []
      else
        (case prettier_resolveConfig fmt (getFilePath document) of
           Inl e \<Rightarrow> Inl e
         | Inr config \<Rightarrow>
             (case prettier_format fmt (getText document) config
                     (getParserFromTypeAttribute (getAttributes_type document)) of
                Inl e \<Rightarrow> Inl e
              | Inr formattedCode \<Rightarrow>
                  (let indent = detectIndent fmt (getText document)
                   in Inr [TextEdit_replace
                             (Range_create (positionAt document 0)
                                (positionAt document (getTextLength document)))
                             (CHR 0x0A #
                                indentString fmt formattedCode (amount indent)
                                  (if indent_type indent = Some ''tab'' then [CHR 0x09]
                                   else '' ''))]))))"

subsection \<open>Notions the properties are stated with\<close>

text \<open>
  The state a host is in between two calls: its current instance is the one instance alive,
  it was created by an earlier call, and no two instances were ever alive together.
\<close>

definition session_inv :: "ls_state \<Rightarrow> bool" where
  "session_inv st =
     (live_after (trace st) = {languageService st} \<and>
      languageService st < created st \<and>
      never_two_live {} (trace st))"

text \<open>
  The update is of a tracked path, and the script kind of its stored snapshot is not the
  script kind the document's type attribute gives.
\<close>

definition kind_changed :: "Document \<Rightarrow> ls_state \<Rightarrow> bool" where
  "kind_changed document st =
     (case Map_get (documents st) (getFilePath document) of
        None \<Rightarrow> False
      | Some pre \<Rightarrow> scriptKind pre \<noteq> getScriptKindFromTypeAttribute (getAttributes_type document))"

text \<open>
  The number a version string stands for, by which reported versions are compared:
  \<^verbatim>\<open>Number(s)\<close> on a decimal numeral with an optional minus sign.
\<close>

definition digit_val :: "char \<Rightarrow> nat" where
  "digit_val c = of_char c - 48"

definition Number_nat :: "string \<Rightarrow> nat" where
  "Number_nat s = foldl (\<lambda>acc c. 10 * acc + digit_val c) 0 s"

definition Number_string :: "string \<Rightarrow> int" where
  "Number_string s =
     (case s of
        [] \<Rightarrow> 0
      | c # r \<Rightarrow> if c = CHR ''-'' then - int (Number_nat r) else int (Number_nat s))"

subsection \<open>Concrete inputs\<close>

text \<open>A workspace in which neither \<^verbatim>\<open>tsconfig.json\<close> nor \<^verbatim>\<open>jsconfig.json\<close> is found.\<close>

definition no_config_sys :: "unit ts_sys" where
  "no_config_sys =
     \<lparr>findConfigFile = (\<lambda>_ _. None),
      readConfigFile_config = (\<lambda>_. None),
      parseJsonConfigFileContent = (\<lambda>_ _ _ _. \<lparr>fileNames = [], options = Map.empty\<rparr>),
      resolveModuleName = (\<lambda>_ _ _. None),
      path_resolve = (\<lambda>dir name. dir @ ''/'' @ name),
      path_dirname = (\<lambda>_. ''/ws/src''),
      path_extname = (\<lambda>_. ''.svelte'')\<rparr>"

text \<open>A workspace with a \<^verbatim>\<open>tsconfig.json\<close> that lists one file and sets one option.\<close>

definition config_sys :: "unit ts_sys" where
  "config_sys =
     \<lparr>findConfigFile = (\<lambda>_ name. if name = ''tsconfig.json'' then Some ''/ws/tsconfig.json'' else None),
      readConfigFile_config = (\<lambda>_. Some ()),
      parseJsonConfigFileContent =
        (\<lambda>_ _ _ _. \<lparr>fileNames = [''/ws/src/main.ts''], options = [''strict'' \<mapsto> Flag True]\<rparr>),
      resolveModuleName = (\<lambda>_ _ _. None),
      path_resolve = (\<lambda>dir name. dir @ ''/'' @ name),
      path_dirname = (\<lambda>_. ''/ws/src''),
      path_extname = (\<lambda>_. ''.svelte'')\<rparr>"

definition example_document :: "string \<Rightarrow> int \<Rightarrow> string option \<Rightarrow> Document" where
  "example_document text v type =
     \<lparr>getFilePath = ''/ws/src/App.svelte'',
      getText = text,
      getTextLength = length text,
      version = v,
      getAttributes_type = type,
      positionAt = (\<lambda>n. \<lparr>line = 0, character = n\<rparr>),
      offsetAt = character\<rparr>"

definition untyped_document :: Document where
  "untyped_document = example_document ''let x = 1'' 1 None"

definition typed_document :: Document where
  "typed_document = example_document ''let x: number = 1'' 2 (Some ''text/typescript'')"

text \<open>
  A service that reports one syntax error at offset 20 and one semantic warning at offset 5
  for every file, and no quick info.
\<close>

definition example_service :: "(string, string) ts_service" where
  "example_service =
     \<lparr>getSyntacticDiagnostics =
        (\<lambda>_ _ _. [\<lparr>span_start = Some 20, span_length = Some 1,
                    messageText = ''syntax'', category = CategoryError\<rparr>]),
      getSemanticDiagnostics =
        (\<lambda>_ _ _. [\<lparr>span_start = Some 5, span_length = Some 2,
                    messageText = ''semantic'', category = CategoryWarning\<rparr>]),
      getQuickInfoAtPosition = (\<lambda>_ _ _ _. None),
      flattenDiagnosticMessageText = (\<lambda>m _. m),
      displayPartsToString = (\<lambda>p. p)\<rparr>"

text \<open>
  A formatter that cannot parse the text \<^verbatim>\<open>let = = ;\<close> and leaves every other text as it
  is, with no indentation detected; and a document of that text.
\<close>

definition example_formatter :: "(unit, error) formatter" where
  "example_formatter =
     \<lparr>prettier_resolveConfig = (\<lambda>_. Inr ()),
      prettier_format = (\<lambda>text _ _. if text = ''let = = ;'' then Inl SyntaxError else Inr text),
      detectIndent = (\<lambda>_. \<lparr>amount = 0, indent_type = None\<rparr>),
      indentString = (\<lambda>str _ _. str)\<rparr>"

definition unparsable_document :: Document where
  "unparsable_document = example_document ''let = = ;'' 1 None"

section \<open>Properties\<close>

subsection \<open>Restarting the language service\<close>

lemma never_two_live_card: "never_two_live L t \<Longrightarrow> card L \<le> 1"
  by (cases t) simp_all

lemma never_two_live_append:
  "never_two_live L (t @ u) = (never_two_live L t \<and> never_two_live (fold apply_event t L) u)"
  by (induction t arbitrary: L) (auto dest: never_two_live_card)

lemma live_after_append: "live_after (t @ u) = fold apply_event u (live_after t)"
  by (simp add: live_after_def)

lemma session_inv_init: "session_inv (getLanguageService sys)"
  by (simp add: session_inv_def getLanguageService_def createLanguageService_def Let_def
      live_after_def split: option.splits)

lemma session_inv_restart:
  assumes "session_inv st"
  shows "session_inv (createLanguageService (dispose st))"
proof -
  from assms have live: "live_after (trace st) = {languageService st}"
    and ntl: "never_two_live {} (trace st)"
    by (simp_all add: session_inv_def)
  have tr: "trace (createLanguageService (dispose st)) =
      trace st @ [Disposed (languageService st), Created (created st)]"
    by (simp add: createLanguageService_def dispose_def)
  have "fold apply_event (trace st) {} = {languageService st}"
    using live by (simp add: live_after_def)
  then have "never_two_live {} (trace st @ [Disposed (languageService st), Created (created st)])"
    using ntl by (simp add: never_two_live_append)
  moreover have "live_after (trace st @ [Disposed (languageService st), Created (created st)])
      = {created st}"
    using live by (simp add: live_after_append)
  ultimately show ?thesis
    by (simp add: session_inv_def tr) (simp add: createLanguageService_def dispose_def)
qed

lemma session_inv_documents: "session_inv (st\<lparr>documents := ds\<rparr>) = session_inv st"
  by (simp add: session_inv_def)

text \<open>
  Claim C1. In a state where the current instance is the only one alive, every call of
  \<^verbatim>\<open>updateDocument\<close> returns the instance the state then holds and keeps the state such. If
  the path was tracked and the stored snapshot's script kind differs from the new one, the
  call disposes of the current instance and then creates one: the trace grows by exactly
  these two events in this order, the instance returned is not the one before, and at no
  point are two instances alive. Otherwise (same script kind, or a path not seen before)
  the instance returned is the one before and nothing is created or disposed of.
\<close>

theorem updateDocument_session:
  assumes "session_inv st"
  shows "languageService (snd (updateDocument d st)) = fst (updateDocument d st) \<and>
         session_inv (snd (updateDocument d st)) \<and>
         (if kind_changed d st
          then fst (updateDocument d st) \<noteq> languageService st \<and>
               trace (snd (updateDocument d st)) =
                 trace st @ [Disposed (languageService st), Created (fst (updateDocument d st))]
          else fst (updateDocument d st) = languageService st \<and>
               trace (snd (updateDocument d st)) = trace st)"
proof (cases "kind_changed d st")
  case True
  then obtain pre where pre: "Map_get (documents st) (getFilePath d) = Some pre"
    and kind: "scriptKind pre \<noteq> scriptKind (fromDocument d)"
    by (auto simp add: kind_changed_def fromDocument_def Let_def split: option.splits)
  have upd: "updateDocument d st =
      (created st,
       (createLanguageService (dispose st))
         \<lparr>documents := Map_set (getFilePath d) (fromDocument d) (documents st)\<rparr>)"
    using pre kind by (simp add: updateDocument_def Let_def createLanguageService_def dispose_def)
  have fresh: "created st \<noteq> languageService st"
    using assms by (simp add: session_inv_def)
  show ?thesis
    using True fresh session_inv_restart [OF assms]
    by (simp add: upd session_inv_documents) (simp add: createLanguageService_def dispose_def)
next
  case False
  then have upd: "updateDocument d st =
      (languageService st,
       st\<lparr>documents := Map_set (getFilePath d) (fromDocument d) (documents st)\<rparr>)"
    by (auto simp add: kind_changed_def updateDocument_def fromDocument_def Let_def
        split: option.splits)
  show ?thesis
    using False assms by (simp add: upd session_inv_documents)
qed

text \<open>
  An untyped document is seen first (instance 0 stays), then the same path arrives typed:
  instance 0 is disposed of before instance 1 is created.
\<close>

theorem updateDocument_session_witness:
  "session_inv (snd (updateDocument untyped_document (getLanguageService config_sys))) \<and>
   kind_changed typed_document (snd (updateDocument untyped_document (getLanguageService config_sys))) \<and>
   fst (updateDocument untyped_document (getLanguageService config_sys)) = 0 \<and>
   fst (updateDocument typed_document
          (snd (updateDocument untyped_document (getLanguageService config_sys)))) = 1 \<and>
   trace (snd (updateDocument typed_document
          (snd (updateDocument untyped_document (getLanguageService config_sys)))))
     = [Created 0, Disposed 0, Created 1]"
proof -
  let ?st0 = "getLanguageService config_sys"
  let ?st1 = "snd (updateDocument untyped_document ?st0)"
  have inv0: "session_inv ?st0" by (rule session_inv_init)
  have k0: "\<not> kind_changed untyped_document ?st0"
    by (simp add: kind_changed_def getLanguageService_def createLanguageService_def Let_def
        Map_get_def config_sys_def js_or_def truthy_def)
  have s0: "languageService ?st0 = 0" "trace ?st0 = [Created 0]"
    by (simp_all add: getLanguageService_def createLanguageService_def Let_def
        config_sys_def js_or_def truthy_def)
  from updateDocument_session [OF inv0, of untyped_document] k0 s0
  have inv1: "session_inv ?st1" and f1: "fst (updateDocument untyped_document ?st0) = 0"
    and l1: "languageService ?st1 = 0" and t1: "trace ?st1 = [Created 0]"
    by simp_all
  have d1: "documents ?st1 = [(''/ws/src/App.svelte'', fromDocument untyped_document)]"
    by (simp add: updateDocument_def Let_def getLanguageService_def createLanguageService_def
        config_sys_def js_or_def truthy_def Map_get_def Map_set_def untyped_document_def
        example_document_def)
  have k1: "kind_changed typed_document ?st1"
    unfolding kind_changed_def d1
    by (simp add: Map_get_def typed_document_def untyped_document_def
        example_document_def fromDocument_def Let_def getScriptKindFromTypeAttribute_def)
  have c1: "created ?st1 = 1"
    by (simp add: updateDocument_def Let_def getLanguageService_def createLanguageService_def
        config_sys_def js_or_def truthy_def Map_get_def)
  have f2: "fst (updateDocument typed_document ?st1) = 1"
    using k1 c1 by (auto simp add: updateDocument_def Let_def kind_changed_def fromDocument_def
        createLanguageService_def dispose_def split: option.splits)
  from updateDocument_session [OF inv1, of typed_document] k1 l1 t1 f2
  have "trace (snd (updateDocument typed_document ?st1)) = [Created 0, Disposed 0, Created 1]"
    by simp
  with inv1 k1 f1 f2 show ?thesis by simp
qed

subsection \<open>Module resolution\<close>

text \<open>
  Claim C2. \<^verbatim>\<open>resolveModuleNames\<close> answers each requested name in turn. The answer is that
  of the native resolution when it has one; when it has none and the name ends in
  \<^verbatim>\<open>.html\<close> or \<^verbatim>\<open>.svelte\<close>, a module whose file name is \<^verbatim>\<open>path.resolve\<close> of the
  containing file's directory and the name; and no module (\<^verbatim>\<open>undefined\<close>, without an
  exception) when it has none and the name ends otherwise.
\<close>

theorem resolveModuleNames_fallback:
  "resolveModuleNames sys st names containingFile =
     map (\<lambda>name.
        case resolveModuleName sys name containingFile (compilerOptions st) of
          Some r \<Rightarrow> Some r
        | None \<Rightarrow>
            if (\<exists>p. name = p @ ''.html'') \<or> (\<exists>p. name = p @ ''.svelte'')
            then Some \<lparr>resolvedFileName = path_resolve sys (path_dirname sys containingFile) name,
                       extension = path_extname sys name\<rparr>
            else None) names"
  by (auto simp add: resolveModuleNames_def Let_def isSvelte_def suffix_def split: option.splits)

lemma resolveModuleNames_example:
  "resolveModuleNames no_config_sys st [''./Child.svelte'', ''lodash''] ''/ws/src/App.svelte'' =
     [Some \<lparr>resolvedFileName = ''/ws/src/./Child.svelte'', extension = ''.svelte''\<rparr>, None]"
  by (simp add: resolveModuleNames_def Let_def isSvelte_def no_config_sys_def suffix_to_prefix)

subsection \<open>A workspace without a configuration file\<close>

lemma files_unassigned:
  "(files (getLanguageService sys) = None) =
   (case js_or (findConfigFile sys workspacePath ''tsconfig.json'')
                (findConfigFile sys workspacePath ''jsconfig.json'') of
      None \<Rightarrow> True
    | Some f \<Rightarrow> f = [] \<or> readConfigFile_config sys f = None)"
  by (simp add: getLanguageService_def Let_def createLanguageService_def split: option.splits)

text \<open>
  Claim C3. With no configuration file found, the host is constructed and its compilation
  settings are the default options, yet \<^verbatim>\<open>getScriptFileNames\<close> throws a \<^verbatim>\<open>TypeError\<close>, at
  once and after a document update alike: \<^verbatim>\<open>files\<close> was never assigned.
\<close>

theorem no_config_getScriptFileNames:
  "getScriptFileNames (getLanguageService no_config_sys) = Inl TypeError \<and>
   getCompilationSettings (getLanguageService no_config_sys) = defaultCompilerOptions \<and>
   getScriptFileNames (snd (updateDocument untyped_document (getLanguageService no_config_sys)))
     = Inl TypeError"
  by (simp add: getScriptFileNames_def getLanguageService_def no_config_sys_def js_or_def
      truthy_def Let_def createLanguageService_def getCompilationSettings_def
      updateDocument_def Map_get_def)

text \<open>With a configuration file the same call lists the project's files and the documents.\<close>

lemma config_getScriptFileNames:
  "getScriptFileNames (snd (updateDocument untyped_document (getLanguageService config_sys)))
     = Inr [''/ws/src/main.ts'', ''/ws/src/App.svelte'']"
  by (simp add: getScriptFileNames_def getLanguageService_def config_sys_def js_or_def
      truthy_def Let_def createLanguageService_def updateDocument_def Map_get_def Map_set_def
      Map_keys_def untyped_document_def example_document_def)

subsection \<open>Script versions\<close>

lemma digit_val_digit_char: "d < 10 \<Longrightarrow> digit_val (digit_char d) = d"
  by (simp add: digit_val_def digit_char_def)

lemma Number_nat_snoc: "Number_nat (s @ [c]) = 10 * Number_nat s + digit_val c"
  by (simp add: Number_nat_def)

lemma Number_nat_String_nat: "Number_nat (String_nat n) = n"
proof (induction n rule: String_nat.induct)
  case (1 n)
  show ?case
  proof (cases "n < 10")
    case True
    then show ?thesis
      by (subst String_nat.simps) (simp add: Number_nat_def digit_val_digit_char)
  next
    case False
    then have "Number_nat (String_nat (n div 10)) = n div 10"
      using "1.IH" by simp
    with False show ?thesis
      by (subst String_nat.simps) (simp add: Number_nat_snoc digit_val_digit_char)
  qed
qed

lemma digit_char_not_minus: "d < 10 \<Longrightarrow> digit_char d \<noteq> CHR ''-''"
proof
  assume d: "d < 10" and "digit_char d = CHR ''-''"
  then have "(of_char (digit_char d) :: nat) = of_char (CHR ''-'')" by simp
  with d show False by (simp add: digit_char_def)
qed

lemma String_nat_hd: "\<exists>d r. d < 10 \<and> String_nat n = digit_char d # r"
proof (induction n rule: String_nat.induct)
  case (1 n)
  show ?case
  proof (cases "n < 10")
    case True
    then show ?thesis by (subst String_nat.simps) auto
  next
    case False
    then obtain d r where "d < 10" "String_nat (n div 10) = digit_char d # r"
      using "1.IH" by blast
    with False show ?thesis
      by (subst String_nat.simps) auto
  qed
qed

lemma Number_string_String_number: "Number_string (String_number i) = i"
proof -
  obtain d r where d: "d < 10" and s: "String_nat (nat i) = digit_char d # r"
    using String_nat_hd by blast
  show ?thesis
  proof (cases "i < 0")
    case True
    then show ?thesis
      by (simp add: Number_string_def String_number_def Number_nat_String_nat)
  next
    case False
    have "Number_nat (digit_char d # r) = nat i"
      using Number_nat_String_nat [of "nat i"] s by simp
    with False d show ?thesis
      by (simp add: Number_string_def String_number_def s digit_char_not_minus)
  qed
qed

lemma getScriptVersion_updateDocument:
  "getScriptVersion (snd (updateDocument d st)) (getFilePath d) = String_number (version d)"
  by (simp add: getScriptVersion_def updateDocument_def Let_def Map_get_def Map_set_def
      update_conv' fromDocument_def createLanguageService_def dispose_def split: option.splits)

text \<open>
  Claim C4, as the code has it. \<^verbatim>\<open>getScriptVersion\<close> returns \<^verbatim>\<open>"0"\<close> for a path that is not
  tracked, and after an update the string of the version field of the document that was
  passed. The version is the document's own: of two updates in a row, the second reports a
  greater version exactly when its document's version field is greater.
\<close>

theorem getScriptVersion_document_version:
  "(Map_get (documents st) p = None \<longrightarrow> getScriptVersion st p = ''0'') \<and>
   getScriptVersion (snd (updateDocument d st)) (getFilePath d) = String_number (version d) \<and>
   (Number_string (getScriptVersion (snd (updateDocument d st)) (getFilePath d))
      < Number_string (getScriptVersion (snd (updateDocument d' (snd (updateDocument d st)))) (getFilePath d')))
     = (version d < version d')"
  by (simp add: getScriptVersion_updateDocument Number_string_String_number)
     (simp add: getScriptVersion_def)

theorem getScriptVersion_document_version_witness:
  "Map_get (documents (getLanguageService config_sys)) ''/ws/src/App.svelte'' = None \<and>
   getScriptVersion (getLanguageService config_sys) ''/ws/src/App.svelte'' = ''0'' \<and>
   getScriptVersion (snd (updateDocument untyped_document (getLanguageService config_sys)))
     ''/ws/src/App.svelte'' = ''1''"
proof -
  have n: "Map_get (documents (getLanguageService config_sys)) ''/ws/src/App.svelte'' = None"
    by (simp add: getLanguageService_def Let_def createLanguageService_def Map_get_def
        split: option.splits)
  have one: "String_number 1 = ''1''"
    by code_simp
  have p: "getFilePath untyped_document = ''/ws/src/App.svelte''"
    and v: "String_number (version untyped_document) = ''1''"
    by (simp_all add: untyped_document_def example_document_def one)
  from getScriptVersion_document_version
    [of "getLanguageService config_sys" "''/ws/src/App.svelte''" untyped_document untyped_document]
  show ?thesis
    using n unfolding p v by simp
qed

text \<open>
  Two updates with the same document, as \<^verbatim>\<open>getDiagnostics\<close> followed by \<^verbatim>\<open>doHover\<close> make
  them, report the same version twice.
\<close>

theorem getScriptVersion_not_increasing:
  "getScriptVersion (snd (updateDocument untyped_document (getLanguageService config_sys)))
     ''/ws/src/App.svelte'' = ''1'' \<and>
   getScriptVersion
     (snd (updateDocument untyped_document
        (snd (updateDocument untyped_document (getLanguageService config_sys)))))
     ''/ws/src/App.svelte'' = ''1'' \<and>
   \<not> Number_string
        (getScriptVersion (snd (updateDocument untyped_document (getLanguageService config_sys)))
           ''/ws/src/App.svelte'')
      < Number_string
        (getScriptVersion
           (snd (updateDocument untyped_document
              (snd (updateDocument untyped_document (getLanguageService config_sys)))))
           ''/ws/src/App.svelte'')"
proof -
  have p: "getFilePath untyped_document = ''/ws/src/App.svelte''"
    by (simp add: untyped_document_def example_document_def)
  have one: "String_number 1 = ''1''"
    by code_simp
  have v: "String_number (version untyped_document) = ''1''"
    by (simp add: untyped_document_def example_document_def one)
  have "getScriptVersion (snd (updateDocument untyped_document st)) ''/ws/src/App.svelte''
      = ''1''" for st
    using getScriptVersion_updateDocument [of untyped_document st] unfolding p v .
  then show ?thesis by simp
qed

subsection \<open>Formatting\<close>

text \<open>
  Claim C5, as the code has it. \<^verbatim>\<open>formatDocument\<close> returns no edit for a document of text
  length 0, without calling prettier. For any other document it returns exactly one edit
  when \<^verbatim>\<open>prettier.resolveConfig\<close> and \<^verbatim>\<open>prettier.format\<close> both succeed: the edit replaces
  the range from the position of offset 0 to the position of the text length, by a newline
  followed by the formatted code indented by the detected amount of the detected character
  (a tab if the detected type is \<^verbatim>\<open>tab\<close>, a space if not). When either of the two fails,
  the promise is rejected with that error and no edit is returned.
\<close>

theorem formatDocument_edits:
  "formatDocument fmt d =
     (if getTextLength d = 0 then Inr []
      else
        case prettier_resolveConfig fmt (getFilePath d) of
          Inl e \<Rightarrow> Inl e
        | Inr config \<Rightarrow>
            (case prettier_format fmt (getText d) config
                    (if getAttributes_type d = Some ''text/typescript'' then ''typescript''
                     else ''babylon'') of
               Inl e \<Rightarrow> Inl e
             | Inr formattedCode \<Rightarrow>
                 Inr [\<lparr>edit_range =
                         \<lparr>range_start = positionAt d 0,
                          range_end = positionAt d (getTextLength d)\<rparr>,
                       newText = CHR 0x0A #
                         indentString fmt formattedCode
                           (amount (detectIndent fmt (getText d)))
                           (if indent_type (detectIndent fmt (getText d)) = Some ''tab''
                            then [CHR 0x09] else '' '')\<rparr>]))"
  by (simp add: formatDocument_def Let_def TextEdit_replace_def Range_create_def
      getParserFromTypeAttribute_def split: sum.splits)

text \<open>
  A document that is not empty and that prettier cannot parse: the promise is rejected
  with the syntax error, and there is no edit.
\<close>

theorem formatDocument_unparsable:
  "getTextLength unparsable_document = 9 \<and>
   formatDocument example_formatter unparsable_document = Inl SyntaxError"
  by (simp add: formatDocument_def unparsable_document_def example_document_def
      example_formatter_def)

lemma formatDocument_example:
  "formatDocument example_formatter untyped_document =
     Inr [\<lparr>edit_range = \<lparr>range_start = \<lparr>line = 0, character = 0\<rparr>,
                         range_end = \<lparr>line = 0, character = 9\<rparr>\<rparr>,
           newText = CHR 0x0A # ''let x = 1''\<rparr>] \<and>
   formatDocument example_formatter (example_document [] 1 None) = Inr []"
  by (simp add: formatDocument_def untyped_document_def example_document_def
      example_formatter_def getParserFromTypeAttribute_def TextEdit_replace_def
      Range_create_def Let_def)

subsection \<open>Diagnostics\<close>

text \<open>
  Claim C6. The diagnostics \<^verbatim>\<open>getDiagnostics\<close> returns are the converted syntactic
  diagnostics of the service, in the order reported, followed by the converted semantic
  diagnostics, in the order reported; offsets play no part.
\<close>

theorem diagnostics_syntactic_first:
  "fst (getDiagnostics ts d st) =
     map (toDiagnostic ts d)
       (getSyntacticDiagnostics ts (fst (updateDocument d st)) (snd (updateDocument d st)) (getFilePath d)) @
     map (toDiagnostic ts d)
       (getSemanticDiagnostics ts (fst (updateDocument d st)) (snd (updateDocument d st)) (getFilePath d))"
  by (simp add: getDiagnostics_def split_beta Let_def)

text \<open>The syntax error at offset 20 comes before the semantic one at offset 5.\<close>

lemma diagnostics_example:
  "map message (fst (getDiagnostics example_service untyped_document (getLanguageService config_sys)))
     = [''syntax'', ''semantic''] \<and>
   map (\<lambda>x. character (range_start (range x)))
     (fst (getDiagnostics example_service untyped_document (getLanguageService config_sys)))
     = [20, 5]"
  by (simp add: getDiagnostics_def split_beta Let_def example_service_def toDiagnostic_def
      convertRange_def Range_create_def or_zero_def untyped_document_def example_document_def)

text \<open>
  Claim C10. \<^verbatim>\<open>getDiagnostics\<close> returns one diagnostic for each syntactic and each semantic
  diagnostic of the service, and every one of them has severity \<^verbatim>\<open>Error\<close>; the category the
  service gave (warning, error, suggestion or message) is not read: changing it changes
  nothing in the diagnostic returned.
\<close>

theorem diagnostics_all_errors:
  "map severity (fst (getDiagnostics ts d st)) =
     replicate
       (length (getSyntacticDiagnostics ts (fst (updateDocument d st)) (snd (updateDocument d st))
                  (getFilePath d))
        + length (getSemanticDiagnostics ts (fst (updateDocument d st)) (snd (updateDocument d st))
                    (getFilePath d)))
       Error \<and>
   severity (toDiagnostic ts d diagnostic) = Error \<and>
   toDiagnostic ts d (diagnostic\<lparr>category := c\<rparr>) = toDiagnostic ts d diagnostic"
  by (simp add: getDiagnostics_def toDiagnostic_def split_beta Let_def map_replicate_const
      comp_def replicate_add convertRange_def)

lemma diagnostics_all_errors_example:
  "map severity (fst (getDiagnostics example_service untyped_document (getLanguageService config_sys)))
     = [Error, Error]"
  by (simp add: getDiagnostics_def split_beta Let_def example_service_def toDiagnostic_def)


subsection \<open>Hover\<close>

text \<open>
  Claim C7. \<^verbatim>\<open>doHover\<close> returns \<^verbatim>\<open>null\<close> when the service has no quick info at the offset
  of the position; when it has, a hover whose range is the converted text span of the
  info and whose contents are the printed display parts under the language tag \<^verbatim>\<open>ts\<close>.
\<close>

theorem doHover_result:
  "fst (doHover ts d pos st) =
     (case getQuickInfoAtPosition ts (fst (updateDocument d st)) (snd (updateDocument d st))
             (getFilePath d) (offsetAt d pos) of
        None \<Rightarrow> None
      | Some info \<Rightarrow>
          Some \<lparr>hover_range =
                  \<lparr>range_start = positionAt d (or_zero (span_start (textSpan info))),
                   range_end = positionAt d (or_zero (span_start (textSpan info))
                                             + or_zero (span_length (textSpan info)))\<rparr>,
                contents = \<lparr>language = ''ts'', val = displayPartsToString ts (displayParts info)\<rparr>\<rparr>)"
  by (simp add: doHover_def split_beta Let_def convertRange_def Range_create_def
      split: option.splits)

lemma doHover_example:
  "fst (doHover example_service untyped_document \<lparr>line = 0, character = 4\<rparr>
          (getLanguageService config_sys)) = None"
  by (simp add: doHover_def split_beta Let_def example_service_def)

subsection \<open>Snapshots\<close>

lemma substring_eq:
  "substring s a b =
     take (max (clamp_index (length s) a) (clamp_index (length s) b)
           - min (clamp_index (length s) a) (clamp_index (length s) b))
       (drop (min (clamp_index (length s) a) (clamp_index (length s) b)) s)"
  by (simp add: substring_def Let_def)

lemma clamp_index_le: "clamp_index n i \<le> n"
  by (simp add: clamp_index_def)

lemma sublist_take_drop: "sublist (take n (drop m xs)) xs"
proof -
  have "xs = take m xs @ take n (drop m xs) @ drop n (drop m xs)"
    by (metis append_take_drop_id)
  then show ?thesis
    unfolding sublist_def by blast
qed

lemma substring_sublist: "sublist (substring s a b) s"
  by (simp add: substring_eq sublist_take_drop)

lemma substring_swap: "substring s a b = substring s b a"
  by (simp add: substring_eq max.commute min.commute)

lemma substring_length:
  "length (substring s a b) =
     max (clamp_index (length s) a) (clamp_index (length s) b)
     - min (clamp_index (length s) a) (clamp_index (length s) b)"
  using clamp_index_le [of "length s" a] clamp_index_le [of "length s" b]
  by (simp add: substring_eq)

lemma substring_clamped:
  "substring s a b =
     (let n = int (length s);
          lo = nat (min (max (min a b) 0) n);
          hi = nat (min (max (max a b) 0) n)
      in take (hi - lo) (drop lo s))"
proof -
  have lo: "min (clamp_index n a) (clamp_index n b) = nat (min (max (min a b) 0) (int n))" for n
    unfolding clamp_index_def by linarith
  have hi: "max (clamp_index n a) (clamp_index n b) = nat (min (max (max a b) 0) (int n))" for n
    unfolding clamp_index_def by linarith
  show ?thesis
    unfolding substring_eq lo hi Let_def ..
qed

lemma updateDocument_documents:
  "documents (snd (updateDocument d st)) = Map_set (getFilePath d) (fromDocument d) (documents st)"
  by (simp add: updateDocument_def Let_def createLanguageService_def dispose_def
      split: option.splits)

lemma snap_getText_fromDocument: "snap_getText (fromDocument d) = substring (getText d)"
  by (simp add: fromDocument_def Let_def)

text \<open>
  Claim C9. For all integers \<^verbatim>\<open>a\<close> and \<^verbatim>\<open>b\<close>, \<^verbatim>\<open>getText(a, b)\<close> of the snapshot of a
  document is the part of the captured text between the two indices, each clamped to
  \<^verbatim>\<open>[0, length]\<close> and taken in increasing order: a contiguous part of the text the
  document had when the snapshot was made, the same for \<^verbatim>\<open>(b, a)\<close>, of the length the
  clamped indices give. An update stores the new document's own snapshot under its path
  and leaves every other entry of the table as it was.
\<close>

theorem snapshot_getText_total:
  "snap_getText (fromDocument d) a b =
     (let n = int (length (getText d));
          lo = nat (min (max (min a b) 0) n);
          hi = nat (min (max (max a b) 0) n)
      in take (hi - lo) (drop lo (getText d))) \<and>
   sublist (snap_getText (fromDocument d) a b) (getText d) \<and>
   snap_getText (fromDocument d) a b = snap_getText (fromDocument d) b a \<and>
   length (snap_getText (fromDocument d) a b) =
     max (clamp_index (length (getText d)) a) (clamp_index (length (getText d)) b)
     - min (clamp_index (length (getText d)) a) (clamp_index (length (getText d)) b) \<and>
   clamp_index (length (getText d)) a \<le> length (getText d) \<and>
   Map_get (documents (snd (updateDocument d' st))) =
     (Map_get (documents st))(getFilePath d' \<mapsto> fromDocument d')"
proof (intro conjI)
  show "snap_getText (fromDocument d) a b =
     (let n = int (length (getText d));
          lo = nat (min (max (min a b) 0) n);
          hi = nat (min (max (max a b) 0) n)
      in take (hi - lo) (drop lo (getText d)))"
    unfolding snap_getText_fromDocument by (rule substring_clamped)
  show "sublist (snap_getText (fromDocument d) a b) (getText d)"
    unfolding snap_getText_fromDocument by (rule substring_sublist)
  show "snap_getText (fromDocument d) a b = snap_getText (fromDocument d) b a"
    unfolding snap_getText_fromDocument by (rule substring_swap)
  show "length (snap_getText (fromDocument d) a b) =
     max (clamp_index (length (getText d)) a) (clamp_index (length (getText d)) b)
     - min (clamp_index (length (getText d)) a) (clamp_index (length (getText d)) b)"
    unfolding snap_getText_fromDocument by (rule substring_length)
  show "clamp_index (length (getText d)) a \<le> length (getText d)"
    by (rule clamp_index_le)
  show "Map_get (documents (snd (updateDocument d' st))) =
     (Map_get (documents st))(getFilePath d' \<mapsto> fromDocument d')"
    by (rule ext) (simp add: updateDocument_documents Map_get_def Map_set_def update_conv')
qed

lemma snapshot_getText_examples:
  "snap_getText (fromDocument untyped_document) (-3) 3 = ''let'' \<and>
   snap_getText (fromDocument untyped_document) 100 4 = ''x = 1'' \<and>
   snap_getText (fromDocument untyped_document) 7 7 = []"
  by code_simp

end
